theory Spec2Isabelle
  imports Complex_Main "HOL-Library.Multiset"
begin

section \<open>Strings\<close>

text \<open>
  Python's \<^verbatim>\<open>sep.join(parts)\<close>: the parts with the separator between
  neighbours, nothing before the first part and nothing after the last.
\<close>

fun join :: "string \<Rightarrow> string list \<Rightarrow> string" where
  "join sep [] = []"
| "join sep [x] = x"
| "join sep (x # y # ys) = x @ sep @ join sep (y # ys)"

section \<open>The embedding script (scripts/embed\_movies.py)\<close>

text \<open>
  Errors are values. The Python exceptions are \<open>TypeError\<close>, \<open>ValueError\<close> and
  \<open>IndexError\<close>; \<open>HTTPException\<close> carries the status code and the detail;
  \<open>OpenAIError\<close> is whatever the embedding provider raises; \<open>APIError\<close> is what the
  Supabase client raises when the database rejects a statement.
\<close>

datatype pg_error =
  InvalidRowCountInLimitClause  \<comment> \<open>\<^verbatim>\<open>LIMIT must not be negative\<close>\<close>
| NumericValueOutOfRange        \<comment> \<open>a value that does not fit \<^verbatim>\<open>INT\<close>\<close>

datatype error =
  TypeError
| ValueError
| IndexError
| HTTPException nat string
| OpenAIError string
| APIError pg_error

type_synonym vector = "real list"

text \<open>
  The embedding provider is outside the repository: it is a parameter of the model,
  \<^verbatim>\<open>openai_client.embeddings.create(model=..., input=...)\<close>, from the model
  identifier and the input texts to the embeddings of \<^verbatim>\<open>response.data\<close> or an
  error. It is a function: the same texts get the same vectors.
\<close>

type_synonym embeddings_create = "string \<Rightarrow> string list \<Rightarrow> error + vector list"

definition EMBEDDING_MODEL_script :: string where
  "EMBEDDING_MODEL_script = ''text-embedding-3-large''"

definition BATCH_SIZE :: nat where
  "BATCH_SIZE = 100"

text \<open>
  A row of \<^verbatim>\<open>movies_df\<close> after \<^verbatim>\<open>pd.to_numeric(..., errors="coerce")\<close> and the
  left merge with the keywords: \<open>None\<close> is pandas' NaN (an id that did not parse, a
  missing cell); an id that parsed is a whole number, as the ids of the data set are; the
  two name lists are always lists.
\<close>

record csv_row =
  c_id :: "int option"
  c_title :: "string option"
  c_overview :: "string option"
  c_release_date :: "string option"
  c_poster_path :: "string option"
  c_genre_names :: "string list"
  c_keyword_names :: "string list"
  c_vote_average :: "real option"
  c_vote_count :: "int option"

text \<open>
  A row of the table \<^verbatim>\<open>movies\<close> (supabase\_setup.sql): \<^verbatim>\<open>id BIGINT PRIMARY KEY\<close>,
  \<^verbatim>\<open>title TEXT NOT NULL\<close>, every other column nullable. The table is the list of its
  rows in the order the executor scans them.
\<close>

record movie =
  m_id :: int
  m_title :: string
  m_overview :: "string option"
  m_release_date :: "string option"
  m_poster_path :: "string option"
  m_genres :: "string list option"
  m_keywords :: "string list option"
  m_vote_average :: "real option"
  m_vote_count :: "int option"
  m_embedding :: "vector option"

text \<open>
  \<^verbatim>\<open>build_embedding_text(row)\<close> reads four fields of the row: the title, the
  overview, the genre names and the keyword names. The two lists are joined first (the
  keywords after the slice \<^verbatim>\<open>[:20]\<close>); a segment is appended when its string is
  truthy, that is non-empty; the segments are joined with a period and a space.
\<close>

definition build_embedding_text :: "string \<Rightarrow> string \<Rightarrow> string list \<Rightarrow> string list \<Rightarrow> string" where
  "build_embedding_text title overview genre_names keyword_names =
     (let genres = join '', '' genre_names;
          keywords = join '', '' (take 20 keyword_names);
          parts = [title]
            @ (if overview \<noteq> [] then [overview] else [])
            @ (if genres \<noteq> [] then [''Genres: '' @ genres] else [])
            @ (if keywords \<noteq> [] then [''Keywords: '' @ keywords] else [])
      in join ''. '' parts)"


text \<open>
  The mask of \<^verbatim>\<open>main\<close>: the id parsed, the title is there, the overview is there and
  is longer than 10 characters (\<^verbatim>\<open>.str.len() > 10\<close> is false on NaN).
\<close>

definition valid_movie :: "csv_row \<Rightarrow> bool" where
  "valid_movie c \<longleftrightarrow>
     c_id c \<noteq> None \<and> c_title c \<noteq> None \<and> c_overview c \<noteq> None \<and>
     (case c_overview c of None \<Rightarrow> False | Some overview \<Rightarrow> length overview > 10)"

text \<open>
  \<^verbatim>\<open>drop_duplicates(subset=["id"])\<close> keeps, of the rows with one id, the first;
  \<open>seen\<close> holds the ids of the rows kept so far.
\<close>

fun drop_duplicates_seen :: "int option list \<Rightarrow> csv_row list \<Rightarrow> csv_row list" where
  "drop_duplicates_seen seen [] = []"
| "drop_duplicates_seen seen (c # cs) =
     (if c_id c \<in> set seen then drop_duplicates_seen seen cs
      else c # drop_duplicates_seen (c_id c # seen) cs)"

definition drop_duplicates :: "csv_row list \<Rightarrow> csv_row list" where
  "drop_duplicates cs = drop_duplicates_seen [] cs"

definition valid_movies :: "csv_row list \<Rightarrow> csv_row list" where
  "valid_movies movies_df = drop_duplicates (filter valid_movie movies_df)"

text \<open>
  \<^verbatim>\<open>valid_movies.apply(build_embedding_text, axis=1)\<close>. On a row whose title or
  overview is NaN the join would meet a float and raise \<open>TypeError\<close>.
\<close>

definition embedding_text :: "csv_row \<Rightarrow> error + string" where
  "embedding_text c =
     (case c_title c of
        None \<Rightarrow> Inl TypeError
      | Some title \<Rightarrow>
          (case c_overview c of
             None \<Rightarrow> Inl TypeError
           | Some overview \<Rightarrow>
               Inr (build_embedding_text title overview (c_genre_names c) (c_keyword_names c))))"

fun traverse :: "('a \<Rightarrow> error + 'b) \<Rightarrow> 'a list \<Rightarrow> error + 'b list" where
  "traverse f [] = Inr []"
| "traverse f (x # xs) =
     (case f x of
        Inl e \<Rightarrow> Inl e
      | Inr y \<Rightarrow> (case traverse f xs of Inl e \<Rightarrow> Inl e | Inr ys \<Rightarrow> Inr (y # ys)))"

definition get_embeddings :: "embeddings_create \<Rightarrow> string list \<Rightarrow> error + vector list" where
  "get_embeddings create texts = create EMBEDDING_MODEL_script texts"

text \<open>
  The records of one batch. For the row at position \<open>idx\<close> the dictionary is built in
  the order of its keys: \<^verbatim>\<open>int(row["id"])\<close> first (\<open>ValueError\<close> on NaN),
  \<^verbatim>\<open>embeddings[idx]\<close> last (\<open>IndexError\<close> when the provider returned fewer
  vectors than texts). The release date is cut to its first 10 characters, the keywords to
  the first 20; \<^verbatim>\<open>str\<close> of a NaN title would be \<open>nan\<close>.
\<close>

definition record_of :: "csv_row \<Rightarrow> int \<Rightarrow> vector \<Rightarrow> movie" where
  "record_of row i e =
     \<lparr> m_id = i,
       m_title = (case c_title row of None \<Rightarrow> ''nan'' | Some t \<Rightarrow> t),
       m_overview = c_overview row,
       m_release_date = map_option (take 10) (c_release_date row),
       m_poster_path = c_poster_path row,
       m_genres = Some (c_genre_names row),
       m_keywords = Some (take 20 (c_keyword_names row)),
       m_vote_average = c_vote_average row,
       m_vote_count = c_vote_count row,
       m_embedding = Some e \<rparr>"

fun records :: "csv_row list \<Rightarrow> vector list \<Rightarrow> error + movie list" where
  "records [] embeddings = Inr []"
| "records (row # batch) embeddings =
     (case c_id row of
        None \<Rightarrow> Inl ValueError
      | Some i \<Rightarrow>
          (case embeddings of
             [] \<Rightarrow> Inl IndexError
           | e # es \<Rightarrow>
               (case records batch es of
                  Inl err \<Rightarrow> Inl err
                | Inr rs \<Rightarrow> Inr (record_of row i e # rs))))"

text \<open>
  \<^verbatim>\<open>supabase.table("movies").upsert(records)\<close>: each record replaces the row with
  its id, where it stands, or is added as a new row. The store is taken to accept the
  records.
\<close>

fun upsert_row :: "movie \<Rightarrow> movie list \<Rightarrow> movie list" where
  "upsert_row r [] = [r]"
| "upsert_row r (m # ms) = (if m_id m = m_id r then r # ms else m # upsert_row r ms)"

definition upsert :: "movie list \<Rightarrow> movie list \<Rightarrow> movie list" where
  "upsert rs table = fold upsert_row rs table"

text \<open>
  The batch loop \<^verbatim>\<open>for start in range(0, total, BATCH_SIZE)\<close>. The data frame
  carries the column \<open>embedding_text\<close> beside each row. An exception ends the run:
  the batches upserted before it stay in the table. The result is the exception, if any,
  and the table.
\<close>

function batch_loop ::
  "embeddings_create \<Rightarrow> (csv_row \<times> string) list \<Rightarrow> nat \<Rightarrow> movie list \<Rightarrow> error option \<times> movie list" where
  "batch_loop create frame start table =
     (let total = length frame in
      if start < total then
        (let stop = min (start + BATCH_SIZE) total;
             batch = take (stop - start) (drop start frame)
         in case get_embeddings create (map snd batch) of
              Inl e \<Rightarrow> (Some e, table)
            | Inr embeddings \<Rightarrow>
                (case records (map fst batch) embeddings of
                   Inl e \<Rightarrow> (Some e, table)
                 | Inr rs \<Rightarrow> batch_loop create frame (start + BATCH_SIZE) (upsert rs table)))
      else (None, table))"
  by pat_completeness auto
termination
  by (relation "measure (\<lambda>(create, frame, start, table). length frame - start)")
     (auto simp: BATCH_SIZE_def)

declare batch_loop.simps [simp del]

text \<open>The table as a map from the primary key to the row; the first row with a key counts.\<close>

definition by_id :: "movie list \<Rightarrow> (int \<rightharpoonup> movie)" where
  "by_id table = map_of (map (\<lambda>m. (m_id m, m)) table)"

definition main :: "embeddings_create \<Rightarrow> csv_row list \<Rightarrow> movie list \<Rightarrow> error option \<times> movie list" where
  "main create movies_df table =
     (let rows = valid_movies movies_df in
      case traverse embedding_text rows of
        Inl e \<Rightarrow> (Some e, table)
      | Inr texts \<Rightarrow> batch_loop create (zip rows texts) 0 table)"

section \<open>The search function of the store (match\_movies)\<close>

text \<open>
  The operator \<^verbatim>\<open><=>\<close> of pgvector, the cosine distance, is outside the
  repository: it is the parameter \<open>cosine_distance\<close>, a function of the stored vector and the
  query vector. \<^verbatim>\<open>FLOAT\<close> is read as \<open>real\<close>.
\<close>

type_synonym distance = "vector \<Rightarrow> vector \<Rightarrow> real"

text \<open>A row of the table the function returns; \<open>genres\<close> may be null.\<close>

record match_row =
  r_id :: int
  r_title :: string
  r_overview :: "string option"
  r_release_date :: "string option"
  r_poster_path :: "string option"
  r_genres :: "string list option"
  r_vote_average :: "real option"
  r_similarity :: real

text \<open>\<^verbatim>\<open>WHERE m.embedding IS NOT NULL\<close>: the rows that have a vector, each with it.\<close>

definition embedded :: "movie list \<Rightarrow> (movie \<times> vector) list" where
  "embedded movies = List.map_filter (\<lambda>m. map_option (Pair m) (m_embedding m)) movies"

definition select_row :: "distance \<Rightarrow> vector \<Rightarrow> movie \<times> vector \<Rightarrow> match_row" where
  "select_row cosine_distance query_embedding me =
     \<lparr> r_id = m_id (fst me),
       r_title = m_title (fst me),
       r_overview = m_overview (fst me),
       r_release_date = m_release_date (fst me),
       r_poster_path = m_poster_path (fst me),
       r_genres = m_genres (fst me),
       r_vote_average = m_vote_average (fst me),
       r_similarity = 1 - cosine_distance (snd me) query_embedding \<rparr>"

text \<open>
  \<^verbatim>\<open>ORDER BY m.embedding <=> query_embedding LIMIT match_count\<close>. The order has one
  key, the distance, and SQL leaves the order of rows with equal keys open. Here such rows
  stay in the order of the scan, and the table may be scanned in any order: every result
  that SQL allows is the result for some order of the scan, since a list that is sorted by
  the key is its own stable sort. PostgreSQL rejects a negative \<^verbatim>\<open>LIMIT\<close>.
\<close>

definition match_movies :: "distance \<Rightarrow> movie list \<Rightarrow> vector \<Rightarrow> int \<Rightarrow> pg_error + match_row list" where
  "match_movies cosine_distance movies query_embedding match_count =
     (if match_count < 0 then Inl InvalidRowCountInLimitClause
      else Inr (take (nat match_count)
             (map (select_row cosine_distance query_embedding)
                (sort_key (\<lambda>me. cosine_distance (snd me) query_embedding) (embedded movies)))))"

section \<open>The search endpoint (backend/main.py)\<close>

definition EMBEDDING_MODEL_backend :: string where
  "EMBEDDING_MODEL_backend = ''text-embedding-3-large''"

record SearchRequest =
  query :: string
  limit :: int

record MovieResult =
  mr_id :: int
  mr_title :: string
  mr_overview :: "string option"
  mr_release_date :: "string option"
  mr_poster_path :: "string option"
  mr_genres :: "string list"
  mr_vote_average :: "real option"
  mr_similarity :: real

record SearchResponse =
  results :: "MovieResult list"

text \<open>
  \<^verbatim>\<open>str.strip()\<close> removes the whitespace at both ends. Which characters are
  whitespace is Python's table, the parameter \<open>isspace\<close>.
\<close>

definition strip :: "(char \<Rightarrow> bool) \<Rightarrow> string \<Rightarrow> string" where
  "strip isspace s = rev (dropWhile isspace (rev (dropWhile isspace s)))"

text \<open>
  \<^verbatim>\<open>supabase.rpc("match_movies", {...})\<close>: the limit is passed as
  \<^verbatim>\<open>match_count INT\<close>, a 32-bit integer.
\<close>

definition rpc_match_movies :: "distance \<Rightarrow> movie list \<Rightarrow> vector \<Rightarrow> int \<Rightarrow> error + match_row list" where
  "rpc_match_movies cosine_distance movies query_embedding match_count =
     (if match_count < - (2 ^ 31) \<or> 2 ^ 31 \<le> match_count then Inl (APIError NumericValueOutOfRange)
      else case match_movies cosine_distance movies query_embedding match_count of
             Inl e \<Rightarrow> Inl (APIError e)
           | Inr rows \<Rightarrow> Inr rows)"

text \<open>\<^verbatim>\<open>row["genres"] or []\<close>: null becomes the empty list.\<close>

definition movie_result :: "match_row \<Rightarrow> MovieResult" where
  "movie_result row =
     \<lparr> mr_id = r_id row,
       mr_title = r_title row,
       mr_overview = r_overview row,
       mr_release_date = r_release_date row,
       mr_poster_path = r_poster_path row,
       mr_genres = (case r_genres row of None \<Rightarrow> [] | Some gs \<Rightarrow> gs),
       mr_vote_average = r_vote_average row,
       mr_similarity = r_similarity row \<rparr>"

text \<open>
  The calls the endpoint makes to its collaborators, in order: the embedding call with the
  model and the input, the search of the store with the query vector and the limit.
\<close>

datatype call =
  EmbeddingsCreate string string
| RpcMatchMovies vector int

text \<open>
  \<^verbatim>\<open>search_movies(request)\<close>. The result is the response or the exception, and the
  calls made. The query is embedded as it came (the one input text is the list of one
  text); \<^verbatim>\<open>embedding_response.data[0]\<close> raises \<open>IndexError\<close> on an empty answer.
\<close>

definition search_movies ::
  "(char \<Rightarrow> bool) \<Rightarrow> embeddings_create \<Rightarrow> distance \<Rightarrow> movie list \<Rightarrow> SearchRequest
     \<Rightarrow> (error + SearchResponse) \<times> call list" where
  "search_movies isspace create cosine_distance movies request =
     (if strip isspace (query request) = [] then
        (Inl (HTTPException 400 ''Query cannot be empty''), [])
      else
        (let calls = [EmbeddingsCreate EMBEDDING_MODEL_backend (query request)] in
         case create EMBEDDING_MODEL_backend [query request] of
           Inl e \<Rightarrow> (Inl e, calls)
         | Inr [] \<Rightarrow> (Inl IndexError, calls)
         | Inr (query_embedding # rest) \<Rightarrow>
             (let calls = calls @ [RpcMatchMovies query_embedding (limit request)] in
              case rpc_match_movies cosine_distance movies query_embedding (limit request) of
                Inl e \<Rightarrow> (Inl e, calls)
              | Inr rows \<Rightarrow> (Inr \<lparr> results = map movie_result rows \<rparr>, calls))))"

text \<open>
  What FastAPI answers: 200 with the response, the status of an \<open>HTTPException\<close>, 500
  for any other exception.
\<close>

fun status_code :: "error + SearchResponse \<Rightarrow> nat" where
  "status_code (Inr response) = 200"
| "status_code (Inl (HTTPException code detail)) = code"
| "status_code (Inl e) = 500"

section \<open>Collaborators and data for the examples\<close>

text \<open>
  The examples need concrete collaborators: a whitespace table with the blank alone, a
  provider that answers every text with the same vector of two components, and the cosine
  distance over the reals.
\<close>

definition example_isspace :: "char \<Rightarrow> bool" where
  "example_isspace c \<longleftrightarrow> c = CHR '' ''"

definition example_create :: embeddings_create where
  "example_create model texts = Inr (map (\<lambda>t. [1, 0]) texts)"

definition example_distance :: distance where
  "example_distance a b =
     1 - (\<Sum>(x, y)\<leftarrow>zip a b. x * y) / sqrt ((\<Sum>x\<leftarrow>a. x * x) * (\<Sum>y\<leftarrow>b. y * y))"

definition example_row :: "int \<Rightarrow> string \<Rightarrow> string \<Rightarrow> csv_row" where
  "example_row i title overview =
     \<lparr> c_id = Some i, c_title = Some title, c_overview = Some overview,
       c_release_date = Some ''1995-12-15 00:00:00'', c_poster_path = None,
       c_genre_names = [''Crime''], c_keyword_names = [],
       c_vote_average = Some 0, c_vote_count = None \<rparr>"

definition example_movie :: "int \<Rightarrow> string \<Rightarrow> vector option \<Rightarrow> movie" where
  "example_movie i title e =
     \<lparr> m_id = i, m_title = title, m_overview = None, m_release_date = None,
       m_poster_path = None, m_genres = None, m_keywords = None, m_vote_average = None,
       m_vote_count = None, m_embedding = e \<rparr>"

definition example_result :: "int \<Rightarrow> string \<Rightarrow> real \<Rightarrow> MovieResult" where
  "example_result i title s =
     \<lparr> mr_id = i, mr_title = title, mr_overview = None, mr_release_date = None,
       mr_poster_path = None, mr_genres = [], mr_vote_average = None, mr_similarity = s \<rparr>"

text \<open>
  A table of five rows in the order of the scan: one row has no vector, the rows 2 and 1
  have the same vector, and row 2 is scanned before row 1.
\<close>

definition example_movies :: "movie list" where
  "example_movies =
     [example_movie 4 ''Far'' (Some [-1, 0]), example_movie 3 ''Null'' None,
      example_movie 2 ''Near'' (Some [1, 0]), example_movie 1 ''Twin'' (Some [1, 0]),
      example_movie 5 ''Side'' (Some [0, 1])]"

text \<open>
  A data frame of four rows: the second has an overview of 10 characters, the third
  repeats the id of the first. And a table that already holds a row with the id 1.
\<close>

definition example_frame :: "csv_row list" where
  "example_frame =
     [example_row 1 ''Heat'' ''A heist goes wrong'', example_row 2 ''Ten'' ''0123456789'',
      example_row 1 ''Heat again'' ''The same id once more'',
      example_row 3 ''Ran'' ''A warlord retires'']"

definition example_record :: "int \<Rightarrow> string \<Rightarrow> string \<Rightarrow> movie" where
  "example_record i title overview =
     \<lparr> m_id = i, m_title = title, m_overview = Some overview,
       m_release_date = Some ''1995-12-15'', m_poster_path = None,
       m_genres = Some [''Crime''], m_keywords = Some [], m_vote_average = Some 0,
       m_vote_count = None, m_embedding = Some [1, 0] \<rparr>"

definition example_table :: "movie list" where
  "example_table = [example_movie 7 ''Other'' None, example_movie 1 ''Old'' None]"

section \<open>The text that is embedded\<close>

lemma join_eq_Nil_iff: "sep \<noteq> [] \<Longrightarrow> join sep xs = [] \<longleftrightarrow> xs = [] \<or> xs = [[]]"
  by (induction sep xs rule: join.induct) simp_all

text \<open>
  C1, as the script computes it: the text is the title followed, for each segment that is
  not empty (the overview, \<open>Genres:\<close> with the genre names joined by a comma and a
  space, \<open>Keywords:\<close> with the first 20 keyword names joined the same way), by a period,
  a space and the segment. The separator before \<open>Genres:\<close> is therefore a period and a
  space, whatever the overview ends with. A segment is left out, separator and all, when
  its joined string is empty: when the list is empty or holds one empty name. Nothing
  follows the last segment.
\<close>

theorem build_embedding_text_segments:
  "build_embedding_text title overview genre_names keyword_names =
     title
     @ (if overview = [] then [] else ''. '' @ overview)
     @ (if genre_names = [] \<or> genre_names = [[]] then []
        else ''. Genres: '' @ join '', '' genre_names)
     @ (if take 20 keyword_names = [] \<or> take 20 keyword_names = [[]] then []
        else ''. Keywords: '' @ join '', '' (take 20 keyword_names))"
  by (simp add: build_embedding_text_def Let_def join_eq_Nil_iff)

text \<open>
  The format of C1 has a single space between the overview and \<open>Genres:\<close>; the script
  puts a period and a space there.
\<close>

theorem build_embedding_text_period_counterexample:
  "build_embedding_text ''Heat'' ''A heist'' [''Crime'', ''Drama''] [''robbery'', ''detective'']
     = ''Heat. A heist. Genres: Crime, Drama. Keywords: robbery, detective''
   \<and> build_embedding_text ''Heat'' ''A heist'' [''Crime'', ''Drama''] [''robbery'', ''detective'']
     \<noteq> ''Heat. A heist Genres: Crime, Drama. Keywords: robbery, detective''"
  by (simp add: build_embedding_text_def)

section \<open>The ingestion filter\<close>

lemma set_drop_duplicates_seen: "set (drop_duplicates_seen seen cs) \<subseteq> set cs"
  by (induction cs arbitrary: seen) auto

lemma drop_duplicates_seen_keeps_id:
  "c \<in> set cs \<Longrightarrow> c_id c \<notin> set seen
     \<Longrightarrow> \<exists>d\<in>set (drop_duplicates_seen seen cs). c_id d = c_id c"
proof (induction cs arbitrary: seen)
  case Nil
  then show ?case by simp
next
  case (Cons a cs)
  show ?case
  proof (cases "c_id a = c_id c")
    case True
    with Cons.prems show ?thesis by simp
  next
    case False
    with Cons.prems have "c \<in> set cs" by auto
    from Cons.IH [OF this, of seen] Cons.IH [OF this, of "c_id a # seen"] Cons.prems False
    show ?thesis by auto
  qed
qed

lemma set_drop_duplicates_seen_iff:
  "c \<in> set (drop_duplicates_seen seen cs) \<longleftrightarrow>
     (\<exists>pre post. cs = pre @ c # post \<and> c_id c \<notin> set seen \<and> c_id c \<notin> c_id ` set pre)"
proof (induction cs arbitrary: seen)
  case Nil
  then show ?case by simp
next
  case (Cons a cs)
  show ?case
  proof (cases "c_id a \<in> set seen")
    case True
    have "(\<exists>pre post. a # cs = pre @ c # post \<and> c_id c \<notin> set seen \<and> c_id c \<notin> c_id ` set pre)
        \<longleftrightarrow> (\<exists>pre post. cs = pre @ c # post \<and> c_id c \<notin> set seen \<and> c_id c \<notin> c_id ` set pre)"
      (is "?l \<longleftrightarrow> ?r")
    proof
      assume ?l
      then obtain pre post where
        p: "a # cs = pre @ c # post" "c_id c \<notin> set seen" "c_id c \<notin> c_id ` set pre"
        by blast
      with True have "pre \<noteq> []" by (cases pre) auto
      with p obtain pre' where "pre = a # pre'" "cs = pre' @ c # post"
        by (cases pre) auto
      with p show ?r by auto
    next
      assume ?r
      then obtain pre post where
        p: "cs = pre @ c # post" "c_id c \<notin> set seen" "c_id c \<notin> c_id ` set pre"
        by blast
      with True have "a # cs = (a # pre) @ c # post" "c_id c \<notin> c_id ` set (a # pre)"
        by auto
      with p(2) show ?l by blast
    qed
    with True Cons.IH [of seen] show ?thesis by simp
  next
    case False
    have "(\<exists>pre post. a # cs = pre @ c # post \<and> c_id c \<notin> set seen \<and> c_id c \<notin> c_id ` set pre)
        \<longleftrightarrow> (c = a \<or> (\<exists>pre post. cs = pre @ c # post \<and> c_id c \<notin> set (c_id a # seen)
              \<and> c_id c \<notin> c_id ` set pre))"
      (is "?l \<longleftrightarrow> ?r")
    proof
      assume ?l
      then obtain pre post where
        p: "a # cs = pre @ c # post" "c_id c \<notin> set seen" "c_id c \<notin> c_id ` set pre"
        by blast
      show ?r
      proof (cases pre)
        case Nil
        with p show ?thesis by simp
      next
        case (Cons b pre')
        with p have "cs = pre' @ c # post" "b = a" by auto
        with p Cons show ?thesis by auto
      qed
    next
      assume ?r
      then show ?l
      proof
        assume "c = a"
        with False have "a # cs = [] @ c # cs" "c_id c \<notin> set seen" "c_id c \<notin> c_id ` set []"
          by auto
        then show ?l by blast
      next
        assume "\<exists>pre post. cs = pre @ c # post \<and> c_id c \<notin> set (c_id a # seen)
              \<and> c_id c \<notin> c_id ` set pre"
        then obtain pre post where
          p: "cs = pre @ c # post" "c_id c \<notin> set (c_id a # seen)" "c_id c \<notin> c_id ` set pre"
          by blast
        then have "a # cs = (a # pre) @ c # post" "c_id c \<notin> set seen"
            "c_id c \<notin> c_id ` set (a # pre)"
          by auto
        then show ?l by blast
      qed
    qed
    with False Cons.IH [of "c_id a # seen"] show ?thesis by simp
  qed
qed

lemma distinct_drop_duplicates_seen: "distinct (map c_id (drop_duplicates_seen seen cs))"
proof (induction cs arbitrary: seen)
  case Nil
  then show ?case by simp
next
  case (Cons a cs)
  have "c_id a \<notin> c_id ` set (drop_duplicates_seen (c_id a # seen) cs)"
    by (auto simp: set_drop_duplicates_seen_iff)
  with Cons.IH show ?case by simp
qed

lemma valid_movie_iff:
  "valid_movie c \<longleftrightarrow>
     (\<exists>i title overview. c_id c = Some i \<and> c_title c = Some title
        \<and> c_overview c = Some overview \<and> 10 < length overview)"
  by (auto simp: valid_movie_def split: option.splits)

text \<open>
  C8: the mask keeps a row exactly when its id parsed, it has a title, and it has an
  overview of more than 10 characters. So a row whose overview has 10 characters or fewer
  does not pass the mask and is not in the set that is embedded, whatever else it holds,
  and a row of the data frame with a parsed id, a title and an overview of 11 characters
  or more passes the mask. From the rows that pass, \<open>drop_duplicates\<close> keeps for each
  id the first: the set that is embedded has one row for each id, a row with the id of
  every row that passed, and holds a row exactly when the row passed and no row that
  passed before it has its id.
\<close>

theorem overview_threshold:
  "(valid_movie c \<longleftrightarrow>
      (\<exists>i title overview. c_id c = Some i \<and> c_title c = Some title
         \<and> c_overview c = Some overview \<and> 10 < length overview))
   \<and> (c_overview c = Some overview \<and> length overview \<le> 10
      \<longrightarrow> c \<notin> set (filter valid_movie movies_df) \<and> c \<notin> set (valid_movies movies_df))
   \<and> (d \<in> set movies_df \<and> c_id d = Some i \<and> c_title d = Some title
        \<and> c_overview d = Some overview' \<and> 10 < length overview'
      \<longrightarrow> d \<in> set (filter valid_movie movies_df)
          \<and> (\<exists>k\<in>set (valid_movies movies_df). c_id k = Some i))
   \<and> (k \<in> set (valid_movies movies_df) \<longleftrightarrow>
        (\<exists>pre post. filter valid_movie movies_df = pre @ k # post \<and> c_id k \<notin> c_id ` set pre))
   \<and> distinct (map c_id (valid_movies movies_df))"
proof (intro conjI impI)
  show "valid_movie c \<longleftrightarrow>
      (\<exists>i title overview. c_id c = Some i \<and> c_title c = Some title
         \<and> c_overview c = Some overview \<and> 10 < length overview)"
    by (rule valid_movie_iff)
next
  assume "c_overview c = Some overview \<and> length overview \<le> 10"
  then have "\<not> valid_movie c" by (simp add: valid_movie_def)
  then show "c \<notin> set (filter valid_movie movies_df)" by simp
  then show "c \<notin> set (valid_movies movies_df)"
    using set_drop_duplicates_seen [of "[]" "filter valid_movie movies_df"]
    by (auto simp: valid_movies_def drop_duplicates_def)
next
  assume a: "d \<in> set movies_df \<and> c_id d = Some i \<and> c_title d = Some title
        \<and> c_overview d = Some overview' \<and> 10 < length overview'"
  then have "valid_movie d" by (simp add: valid_movie_def)
  with a show "d \<in> set (filter valid_movie movies_df)" by simp
  then show "\<exists>k\<in>set (valid_movies movies_df). c_id k = Some i"
    using drop_duplicates_seen_keeps_id [of d "filter valid_movie movies_df" "[]"] a
    by (auto simp: valid_movies_def drop_duplicates_def)
next
  show "k \<in> set (valid_movies movies_df) \<longleftrightarrow>
        (\<exists>pre post. filter valid_movie movies_df = pre @ k # post \<and> c_id k \<notin> c_id ` set pre)"
    by (simp add: valid_movies_def drop_duplicates_def set_drop_duplicates_seen_iff)
next
  show "distinct (map c_id (valid_movies movies_df))"
    by (simp add: valid_movies_def drop_duplicates_def distinct_drop_duplicates_seen)
qed

theorem overview_threshold_witness:
  "length ''0123456789'' \<le> 10 \<and> 10 < length ''0123456789a''
   \<and> \<not> valid_movie (example_row 1 ''Ten'' ''0123456789'')
   \<and> valid_movie (example_row 2 ''Eleven'' ''0123456789a'')
   \<and> filter valid_movie
        [example_row 1 ''Ten'' ''0123456789'', example_row 2 ''Eleven'' ''0123456789a'']
       = [example_row 2 ''Eleven'' ''0123456789a'']
   \<and> valid_movies [example_row 1 ''Ten'' ''0123456789'', example_row 2 ''Eleven'' ''0123456789a'']
       = [example_row 2 ''Eleven'' ''0123456789a'']"
  using overview_threshold [of "example_row 1 ''Ten'' ''0123456789''" "''0123456789''"
      "[example_row 1 ''Ten'' ''0123456789'', example_row 2 ''Eleven'' ''0123456789a'']"
      "example_row 2 ''Eleven'' ''0123456789a''" 2 "''Eleven''" "''0123456789a''"
      "example_row 2 ''Eleven'' ''0123456789a''"]
  by (simp add: example_row_def valid_movies_def valid_movie_def drop_duplicates_def)

section \<open>The search endpoint: validation\<close>

lemma strip_eq_Nil_iff: "strip isspace s = [] \<longleftrightarrow> (\<forall>c\<in>set s. isspace c)"
proof (cases "dropWhile isspace s = []")
  case True
  have "strip isspace s = []"
    unfolding strip_def True by simp
  moreover from True have "\<forall>c\<in>set s. isspace c"
    by (simp add: dropWhile_eq_Nil_conv)
  ultimately show ?thesis by simp
next
  case False
  then have "\<not> isspace (hd (dropWhile isspace s))" by (rule hd_dropWhile)
  moreover from False have "hd (dropWhile isspace s) \<in> set (dropWhile isspace s)" by simp
  ultimately have "strip isspace s \<noteq> []"
    by (auto simp: strip_def dropWhile_eq_Nil_conv)
  with False show ?thesis by (simp add: dropWhile_eq_Nil_conv)
qed

text \<open>
  C4: when every character of the query is whitespace (the empty query included), the
  endpoint raises \<open>HTTPException\<close> with status 400 and has made no call: neither the
  embedding call nor the search of the store.
\<close>

theorem blank_query_rejected:
  assumes "\<forall>c\<in>set (query request). isspace c"
  shows "search_movies isspace create cosine_distance movies request
           = (Inl (HTTPException 400 ''Query cannot be empty''), [])
         \<and> status_code (fst (search_movies isspace create cosine_distance movies request)) = 400"
  using assms by (simp add: search_movies_def strip_eq_Nil_iff)

theorem blank_query_rejected_witness:
  "search_movies example_isspace example_create example_distance []
       \<lparr>query = ''   '', limit = 10\<rparr>
     = (Inl (HTTPException 400 ''Query cannot be empty''), [])
   \<and> search_movies example_isspace example_create example_distance []
       \<lparr>query = [], limit = 10\<rparr>
     = (Inl (HTTPException 400 ''Query cannot be empty''), [])"
  using blank_query_rejected [of "\<lparr>query = ''   '', limit = 10\<rparr>" example_isspace
      example_create example_distance "[]"]
    blank_query_rejected [of "\<lparr>query = [], limit = 10\<rparr>" example_isspace
      example_create example_distance "[]"]
  by (simp add: example_isspace_def)

section \<open>The search function: rows, order and limit\<close>

lemma set_embedded:
  "set (embedded movies) = {(m, e). m \<in> set movies \<and> m_embedding m = Some e}"
  by (induction movies) (auto simp: embedded_def map_filter_simps split: option.splits)

lemma embedded_filter:
  "embedded (filter (\<lambda>m. m_embedding m \<noteq> None) movies) = embedded movies"
  by (induction movies) (auto simp: embedded_def map_filter_simps)

lemma mset_embedded:
  "mset (embedded movies)
     = image_mset (\<lambda>m. (m, the (m_embedding m)))
         (filter_mset (\<lambda>m. m_embedding m \<noteq> None) (mset movies))"
  by (induction movies) (auto simp: embedded_def map_filter_simps split: option.splits)

lemma sorted_similarity:
  fixes k :: "'a \<Rightarrow> real"
  shows "sorted (map k xs) \<Longrightarrow> sorted_wrt (\<ge>) (map (\<lambda>x. 1 - k x) xs)"
  by (induction xs) auto

lemma map_key_sort_key:
  fixes k :: "'a \<Rightarrow> real"
  shows "map k (sort_key k xs) = sort (map k xs)"
  by (rule properties_for_sort [symmetric]) simp_all

lemma sort_mset_cong:
  fixes xs :: "real list"
  shows "mset xs = mset ys \<Longrightarrow> sort xs = sort ys"
  by (rule properties_for_sort) simp_all

lemma match_movies_sorted_scan:
  assumes "sorted (map (\<lambda>me. cosine_distance (snd me) q) (embedded movies))" and "0 \<le> n"
  shows "match_movies cosine_distance movies q n
    = Inr (take (nat n) (map (select_row cosine_distance q) (embedded movies)))"
  using assms by (simp add: match_movies_def sort_key_id_if_sorted)

lemma rpc_match_movies_Inr:
  "rpc_match_movies cosine_distance movies q n = Inr rows \<longleftrightarrow>
     0 \<le> n \<and> n < 2 ^ 31 \<and>
     rows = take (nat n) (map (select_row cosine_distance q)
              (sort_key (\<lambda>me. cosine_distance (snd me) q) (embedded movies)))"
  by (auto simp: rpc_match_movies_def match_movies_def)

lemma search_movies_Inr:
  "search_movies isspace create cosine_distance movies request = (Inr response, calls) \<longleftrightarrow>
     strip isspace (query request) \<noteq> [] \<and>
     (\<exists>q rest rows. create EMBEDDING_MODEL_backend [query request] = Inr (q # rest) \<and>
        rpc_match_movies cosine_distance movies q (limit request) = Inr rows \<and>
        response = \<lparr>results = map movie_result rows\<rparr> \<and>
        calls = [EmbeddingsCreate EMBEDDING_MODEL_backend (query request),
                 RpcMatchMovies q (limit request)])"
  by (auto simp: search_movies_def Let_def split: sum.splits list.splits)

lemma set_rows:
  assumes "r \<in> set (take n (map (select_row cosine_distance q) (sort_key k (embedded movies))))"
  shows "\<exists>m\<in>set movies. \<exists>e. m_embedding m = Some e \<and> r = select_row cosine_distance q (m, e)"
proof -
  from assms have "r \<in> select_row cosine_distance q ` set (embedded movies)"
    by (auto dest!: in_set_takeD)
  then show ?thesis by (auto simp: set_embedded)
qed

lemma example_distance_values:
  "example_distance [1, 0] [1, 0] = 0"
  "example_distance [0, 1] [1, 0] = 1"
  "example_distance [-1, 0] [1, 0] = 2"
  by (simp_all add: example_distance_def)

lemmas example_defs =
  search_movies_def strip_def example_isspace_def example_create_def
  EMBEDDING_MODEL_backend_def rpc_match_movies_def match_movies_def embedded_def
  map_filter_simps example_movies_def example_movie_def example_distance_values
  select_row_def movie_result_def example_result_def

lemma example_search:
  "search_movies example_isspace example_create example_distance example_movies
       \<lparr>query = ''a ship'', limit = 3\<rparr>
     = (Inr \<lparr>results = [example_result 2 ''Near'' 1, example_result 1 ''Twin'' 1,
                         example_result 5 ''Side'' 0]\<rparr>,
        [EmbeddingsCreate ''text-embedding-3-large'' ''a ship'', RpcMatchMovies [1, 0] 3])"
  by (simp add: example_defs)

text \<open>
  C3: when the endpoint answers a request whose limit is positive, the list of results is
  no longer than the limit, the similarities do not increase along it, and every result
  comes from a stored row with a vector, its similarity being 1 minus the distance between
  that vector and the embedding of the query.
\<close>

theorem search_results_ranked:
  assumes "search_movies isspace create cosine_distance movies request = (Inr response, calls)"
    and "0 < limit request"
  shows "length (results response) \<le> nat (limit request)
    \<and> sorted_wrt (\<ge>) (map mr_similarity (results response))
    \<and> (\<exists>q rest. create EMBEDDING_MODEL_backend [query request] = Inr (q # rest)
          \<and> (\<forall>r\<in>set (results response). \<exists>m\<in>set movies. \<exists>e.
                m_embedding m = Some e \<and> mr_id r = m_id m
                \<and> mr_similarity r = 1 - cosine_distance e q))"
proof -
  from assms(1) obtain q rest rows where
    c: "create EMBEDDING_MODEL_backend [query request] = Inr (q # rest)" and
    r: "rpc_match_movies cosine_distance movies q (limit request) = Inr rows" and
    resp: "response = \<lparr>results = map movie_result rows\<rparr>"
    unfolding search_movies_Inr by blast
  define k where "k = (\<lambda>me :: movie \<times> vector. cosine_distance (snd me) q)"
  from r have rows: "rows = take (nat (limit request))
      (map (select_row cosine_distance q) (sort_key k (embedded movies)))"
    by (simp add: rpc_match_movies_Inr k_def)
  have len: "length (results response) \<le> nat (limit request)"
    by (simp add: resp rows)
  have "map mr_similarity (results response)
      = take (nat (limit request)) (map (\<lambda>me. 1 - k me) (sort_key k (embedded movies)))"
    by (simp add: resp rows movie_result_def select_row_def take_map o_def k_def)
  moreover have "sorted_wrt (\<ge>) (map (\<lambda>me. 1 - k me) (sort_key k (embedded movies)))"
    by (rule sorted_similarity) simp
  ultimately have srt: "sorted_wrt (\<ge>) (map mr_similarity (results response))"
    by (simp add: sorted_wrt_take)
  have "\<exists>m\<in>set movies. \<exists>e. m_embedding m = Some e \<and> mr_id r = m_id m
          \<and> mr_similarity r = 1 - cosine_distance e q"
    if "r \<in> set (results response)" for r
  proof -
    from that obtain row where "row \<in> set rows" and rr: "r = movie_result row"
      by (auto simp: resp)
    then obtain m e where "m \<in> set movies" "m_embedding m = Some e"
        "row = select_row cosine_distance q (m, e)"
      unfolding rows using set_rows by blast
    then show ?thesis by (auto simp: rr movie_result_def select_row_def)
  qed
  with c len srt show ?thesis by blast
qed

theorem search_results_ranked_witness:
  "search_movies example_isspace example_create example_distance example_movies
       \<lparr>query = ''a ship'', limit = 3\<rparr>
     = (Inr \<lparr>results = [example_result 2 ''Near'' 1, example_result 1 ''Twin'' 1,
                         example_result 5 ''Side'' 0]\<rparr>,
        [EmbeddingsCreate ''text-embedding-3-large'' ''a ship'', RpcMatchMovies [1, 0] 3])
   \<and> length [example_result 2 ''Near'' 1, example_result 1 ''Twin'' 1,
              example_result 5 ''Side'' 0] \<le> nat 3
   \<and> sorted_wrt (\<ge>) (map mr_similarity [example_result 2 ''Near'' 1,
        example_result 1 ''Twin'' 1, example_result 5 ''Side'' 0])"
proof -
  note h = example_search
  from search_results_ranked [OF h] h show ?thesis by simp
qed

text \<open>
  C7: the rows without a vector do not take part in a search. The endpoint answers as it
  would on the table without them, so they cause no error; and, the ids being the primary
  key, the id of such a row is not among the results.
\<close>

theorem null_embedding_rows_excluded:
  "search_movies isspace create cosine_distance movies request
     = search_movies isspace create cosine_distance
         (filter (\<lambda>m. m_embedding m \<noteq> None) movies) request
   \<and> (search_movies isspace create cosine_distance movies request = (Inr response, calls)
        \<and> distinct (map m_id movies) \<and> m \<in> set movies \<and> m_embedding m = None
      \<longrightarrow> m_id m \<notin> mr_id ` set (results response))"
proof (intro conjI impI)
  show "search_movies isspace create cosine_distance movies request
     = search_movies isspace create cosine_distance
         (filter (\<lambda>m. m_embedding m \<noteq> None) movies) request"
    by (simp only: search_movies_def rpc_match_movies_def match_movies_def embedded_filter)
next
  assume a: "search_movies isspace create cosine_distance movies request = (Inr response, calls)
        \<and> distinct (map m_id movies) \<and> m \<in> set movies \<and> m_embedding m = None"
  then obtain q rows where
    r: "rpc_match_movies cosine_distance movies q (limit request) = Inr rows" and
    resp: "response = \<lparr>results = map movie_result rows\<rparr>"
    unfolding search_movies_Inr by blast
  show "m_id m \<notin> mr_id ` set (results response)"
  proof
    assume "m_id m \<in> mr_id ` set (results response)"
    then obtain row where "row \<in> set rows" and i: "r_id row = m_id m"
      by (auto simp: resp movie_result_def)
    with r obtain m' e where m': "m' \<in> set movies" "m_embedding m' = Some e"
        "row = select_row cosine_distance q (m', e)"
      unfolding rpc_match_movies_Inr using set_rows by blast
    with i have "m_id m' = m_id m" by (simp add: select_row_def)
    with a m'(1) have "m' = m"
      by (auto simp: distinct_map dest: inj_onD)
    with a m'(2) show False by simp
  qed
qed

theorem null_embedding_rows_excluded_witness:
  "distinct (map m_id example_movies)
   \<and> example_movie 3 ''Null'' None \<in> set example_movies
   \<and> m_embedding (example_movie 3 ''Null'' None) = None
   \<and> fst (search_movies example_isspace example_create example_distance example_movies
        \<lparr>query = ''a ship'', limit = 9\<rparr>)
     = Inr \<lparr>results = [example_result 2 ''Near'' 1, example_result 1 ''Twin'' 1,
                        example_result 5 ''Side'' 0, example_result 4 ''Far'' (- 1)]\<rparr>
   \<and> 3 \<notin> mr_id ` set [example_result 2 ''Near'' 1, example_result 1 ''Twin'' 1,
                        example_result 5 ''Side'' 0, example_result 4 ''Far'' (- 1)]"
proof -
  have h: "search_movies example_isspace example_create example_distance example_movies
       \<lparr>query = ''a ship'', limit = 9\<rparr>
     = (Inr \<lparr>results = [example_result 2 ''Near'' 1, example_result 1 ''Twin'' 1,
                        example_result 5 ''Side'' 0, example_result 4 ''Far'' (- 1)]\<rparr>,
        [EmbeddingsCreate ''text-embedding-3-large'' ''a ship'', RpcMatchMovies [1, 0] 9])"
    by (simp add: example_defs)
  have d: "distinct (map m_id example_movies)"
    "example_movie 3 ''Null'' None \<in> set example_movies"
    "m_embedding (example_movie 3 ''Null'' None) = None"
    by (simp_all add: example_movies_def example_movie_def)
  from null_embedding_rows_excluded [of example_isspace example_create example_distance
      example_movies "\<lparr>query = ''a ship'', limit = 9\<rparr>" _ _ "example_movie 3 ''Null'' None",
      THEN conjunct2, rule_format, OF conjI [OF h conjI [OF d(1) conjI [OF d(2) d(3)]]]]
  have "m_id (example_movie 3 ''Null'' None)
      \<notin> mr_id ` set [example_result 2 ''Near'' 1, example_result 1 ''Twin'' 1,
                        example_result 5 ''Side'' 0, example_result 4 ''Far'' (- 1)]"
    by simp
  with h d show ?thesis by (simp add: example_movie_def)
qed

text \<open>
  C10: in every answer of the endpoint the genres of a result are the genres of the row
  the store returned, and the empty list where that column is null.
\<close>

theorem genres_coerced:
  assumes "search_movies isspace create cosine_distance movies request = (Inr response, calls)"
  shows "\<exists>q rows. RpcMatchMovies q (limit request) \<in> set calls
           \<and> rpc_match_movies cosine_distance movies q (limit request) = Inr rows
           \<and> map mr_genres (results response)
               = map (\<lambda>row. case r_genres row of None \<Rightarrow> [] | Some gs \<Rightarrow> gs) rows"
proof -
  from assms obtain q rows where
    "rpc_match_movies cosine_distance movies q (limit request) = Inr rows"
    "response = \<lparr>results = map movie_result rows\<rparr>"
    "RpcMatchMovies q (limit request) \<in> set calls"
    unfolding search_movies_Inr by auto
  then show ?thesis by (auto simp: movie_result_def o_def)
qed

theorem genres_coerced_witness:
  "map m_genres example_movies = [None, None, None, None, None]
   \<and> map_sum id (\<lambda>response. map mr_genres (results response))
       (fst (search_movies example_isspace example_create example_distance example_movies
          \<lparr>query = ''a ship'', limit = 3\<rparr>))
     = Inr [[], [], []]"
  using genres_coerced [OF example_search] example_search
  by (simp add: example_movies_def example_movie_def example_result_def)

section \<open>The search function: ties and the limit\<close>

text \<open>
  C5, as the function orders: the one key of the order is the distance. A second scan
  order of the same rows gives the same list of similarities, position by position, and,
  when the limit does not cut the list, the same results as a multiset. Which of two rows
  with equal similarity comes first is not fixed by this: it follows the scan, not the id.
\<close>

theorem tied_rows:
  assumes "search_movies isspace create cosine_distance movies request = (Inr response, calls)"
    and "mset movies' = mset movies"
  shows "\<exists>response'.
      search_movies isspace create cosine_distance movies' request = (Inr response', calls)
    \<and> map mr_similarity (results response') = map mr_similarity (results response)
    \<and> (int (length (embedded movies)) \<le> limit request
         \<longrightarrow> mset (results response') = mset (results response))"
proof -
  from assms(1) obtain q rest rows where
    s: "strip isspace (query request) \<noteq> []" and
    c: "create EMBEDDING_MODEL_backend [query request] = Inr (q # rest)" and
    r: "rpc_match_movies cosine_distance movies q (limit request) = Inr rows" and
    resp: "response = \<lparr>results = map movie_result rows\<rparr>" and
    calls: "calls = [EmbeddingsCreate EMBEDDING_MODEL_backend (query request),
                      RpcMatchMovies q (limit request)]"
    unfolding search_movies_Inr by blast
  define k where "k = (\<lambda>me :: movie \<times> vector. cosine_distance (snd me) q)"
  define n where "n = nat (limit request)"
  define out where
    "out = (\<lambda>ms. take n (map (select_row cosine_distance q) (sort_key k (embedded ms))))"
  from r have range: "0 \<le> limit request" "limit request < 2 ^ 31"
    and rows: "rows = out movies"
    by (simp_all add: rpc_match_movies_Inr k_def out_def n_def)
  then have r': "rpc_match_movies cosine_distance movies' q (limit request) = Inr (out movies')"
    by (simp add: rpc_match_movies_Inr k_def out_def n_def)
  define response' where "response' = \<lparr>results = map movie_result (out movies')\<rparr>"
  have 1: "search_movies isspace create cosine_distance movies' request = (Inr response', calls)"
    unfolding search_movies_Inr using s c r' calls response'_def by blast
  have e: "mset (embedded movies') = mset (embedded movies)"
    by (simp add: mset_embedded assms(2))
  have sim: "map (mr_similarity \<circ> movie_result) (out ms)
      = take n (map (\<lambda>d. 1 - d) (sort (map k (embedded ms))))" for ms
  proof -
    have "map (mr_similarity \<circ> movie_result) (out ms)
        = take n (map (\<lambda>d. 1 - d) (map k (sort_key k (embedded ms))))"
      by (simp add: out_def take_map o_def movie_result_def select_row_def k_def)
    then show ?thesis by (simp only: map_key_sort_key)
  qed
  have "sort (map k (embedded movies')) = sort (map k (embedded movies))"
    by (rule sort_mset_cong) (simp add: e)
  then have 2: "map mr_similarity (results response') = map mr_similarity (results response)"
    by (simp add: response'_def resp rows sim)
  have 3: "mset (results response') = mset (results response)"
    if "int (length (embedded movies)) \<le> limit request"
  proof -
    from that have "length (embedded movies) \<le> n" by (simp add: n_def)
    moreover from e have "length (embedded movies') = length (embedded movies)"
      by (rule mset_eq_length)
    ultimately have "out movies' = map (select_row cosine_distance q) (sort_key k (embedded movies'))"
      "out movies = map (select_row cosine_distance q) (sort_key k (embedded movies))"
      by (simp_all add: out_def)
    then show ?thesis
      by (simp add: response'_def resp rows e)
  qed
  from 1 2 3 show ?thesis by blast
qed

theorem tied_rows_witness:
  "mset (rev example_movies) = mset example_movies
   \<and> map_sum id (\<lambda>response. map mr_similarity (results response))
       (fst (search_movies example_isspace example_create example_distance example_movies
          \<lparr>query = ''a ship'', limit = 3\<rparr>)) = Inr [1, 1, 0]
   \<and> map_sum id (\<lambda>response. map mr_similarity (results response))
       (fst (search_movies example_isspace example_create example_distance (rev example_movies)
          \<lparr>query = ''a ship'', limit = 3\<rparr>)) = Inr [1, 1, 0]"
proof -
  have m: "mset (rev example_movies) = mset example_movies" by simp
  from tied_rows [OF example_search m] obtain response' where
    "search_movies example_isspace example_create example_distance (rev example_movies)
       \<lparr>query = ''a ship'', limit = 3\<rparr>
     = (Inr response', [EmbeddingsCreate ''text-embedding-3-large'' ''a ship'',
          RpcMatchMovies [1, 0] 3])"
    "map mr_similarity (results response') = [1, 1, 0]"
    by (auto simp: example_result_def)
  with example_search show ?thesis by (simp add: example_result_def)
qed

text \<open>
  The rows 2 and 1 have the same vector and so the same similarity. Scanned in the order
  2, 1 they are returned in that order, the greater id first; the same rows scanned in the
  order 1, 2 are returned with the smaller id first.
\<close>

theorem tie_order_counterexample:
  "search_movies example_isspace example_create example_distance example_movies
       \<lparr>query = ''a ship'', limit = 3\<rparr>
     = (Inr \<lparr>results = [example_result 2 ''Near'' 1, example_result 1 ''Twin'' 1,
                         example_result 5 ''Side'' 0]\<rparr>,
        [EmbeddingsCreate ''text-embedding-3-large'' ''a ship'', RpcMatchMovies [1, 0] 3])
   \<and> search_movies example_isspace example_create example_distance (rev example_movies)
       \<lparr>query = ''a ship'', limit = 3\<rparr>
     = (Inr \<lparr>results = [example_result 1 ''Twin'' 1, example_result 2 ''Near'' 1,
                         example_result 5 ''Side'' 0]\<rparr>,
        [EmbeddingsCreate ''text-embedding-3-large'' ''a ship'', RpcMatchMovies [1, 0] 3])"
  by (simp add: example_defs)

text \<open>
  C6, as the endpoint treats the limit: it does not validate it. For a query that is not
  blank and an embedding call that answers, a limit of 0 gives a successful answer with no
  results; a negative limit is passed on to the store, whose rejection surfaces as a
  server error (status 500), after the embedding call; a limit that is at least the number
  of rows with a vector, and fits 32 bits, gives all of these rows.
\<close>

theorem limit_behaviour:
  assumes "strip isspace (query request) \<noteq> []"
    and "create EMBEDDING_MODEL_backend [query request] = Inr (q # rest)"
  shows "(limit request = 0 \<longrightarrow>
            fst (search_movies isspace create cosine_distance movies request)
              = Inr \<lparr>results = []\<rparr>)
    \<and> (limit request < 0 \<longrightarrow>
            (\<exists>e. fst (search_movies isspace create cosine_distance movies request)
                    = Inl (APIError e))
            \<and> status_code (fst (search_movies isspace create cosine_distance movies request)) = 500
            \<and> snd (search_movies isspace create cosine_distance movies request)
                = [EmbeddingsCreate EMBEDDING_MODEL_backend (query request),
                   RpcMatchMovies q (limit request)])
    \<and> (int (length (embedded movies)) \<le> limit request \<and> limit request < 2 ^ 31 \<longrightarrow>
            (\<exists>response. fst (search_movies isspace create cosine_distance movies request)
                    = Inr response
               \<and> mset (results response)
                   = image_mset (\<lambda>me. movie_result (select_row cosine_distance q me))
                       (mset (embedded movies))))"
  using assms
  by (auto simp: search_movies_def rpc_match_movies_def match_movies_def
      multiset.map_comp o_def)

theorem limit_behaviour_witness:
  "strip example_isspace ''a ship'' = ''a ship''
   \<and> example_create EMBEDDING_MODEL_backend [''a ship''] = Inr [[1, 0]]
   \<and> length (embedded example_movies) = 4
   \<and> fst (search_movies example_isspace example_create example_distance example_movies
        \<lparr>query = ''a ship'', limit = 9\<rparr>)
     = Inr \<lparr>results = [example_result 2 ''Near'' 1, example_result 1 ''Twin'' 1,
                        example_result 5 ''Side'' 0, example_result 4 ''Far'' (- 1)]\<rparr>
   \<and> fst (search_movies example_isspace example_create example_distance example_movies
        \<lparr>query = ''a ship'', limit = 0\<rparr>) = Inr \<lparr>results = []\<rparr>
   \<and> fst (search_movies example_isspace example_create example_distance example_movies
        \<lparr>query = ''a ship'', limit = - 1\<rparr>) = Inl (APIError InvalidRowCountInLimitClause)"
proof -
  have s: "strip example_isspace (query \<lparr>query = ''a ship'', limit = l\<rparr>) \<noteq> []" for l :: int
    by (simp add: strip_def example_isspace_def)
  have c: "example_create EMBEDDING_MODEL_backend [query \<lparr>query = ''a ship'', limit = l\<rparr>]
      = Inr ([1, 0] # [])" for l :: int
    by (simp add: example_create_def)
  note i = limit_behaviour [where isspace = example_isspace and create = example_create
      and cosine_distance = example_distance and movies = example_movies
      and q = "[1, 0]" and rest = "[]"]
  from i [where request = "\<lparr>query = ''a ship'', limit = 9\<rparr>", OF s c]
    i [where request = "\<lparr>query = ''a ship'', limit = 0\<rparr>", OF s c]
    i [where request = "\<lparr>query = ''a ship'', limit = - 1\<rparr>", OF s c]
  show ?thesis by (simp add: example_defs)
qed

text \<open>
  A limit of 0 is answered with status 200 and an empty list, not with a validation
  error; a limit of \<open>-1\<close> is answered with status 500, after both calls were made.
\<close>

theorem limit_zero_counterexample:
  "search_movies example_isspace example_create example_distance example_movies
       \<lparr>query = ''a ship'', limit = 0\<rparr>
     = (Inr \<lparr>results = []\<rparr>,
        [EmbeddingsCreate ''text-embedding-3-large'' ''a ship'', RpcMatchMovies [1, 0] 0])
   \<and> status_code (fst (search_movies example_isspace example_create example_distance
        example_movies \<lparr>query = ''a ship'', limit = 0\<rparr>)) = 200
   \<and> search_movies example_isspace example_create example_distance example_movies
       \<lparr>query = ''a ship'', limit = - 1\<rparr>
     = (Inl (APIError InvalidRowCountInLimitClause),
        [EmbeddingsCreate ''text-embedding-3-large'' ''a ship'', RpcMatchMovies [1, 0] (- 1)])
   \<and> status_code (fst (search_movies example_isspace example_create example_distance
        example_movies \<lparr>query = ''a ship'', limit = - 1\<rparr>)) = 500"
  by (simp add: example_defs)

section \<open>The ingestion run: upsert by id\<close>

lemma ids_upsert_row:
  "map m_id (upsert_row r table)
     = (if m_id r \<in> set (map m_id table) then map m_id table else map m_id table @ [m_id r])"
  by (induction table) auto

lemma by_id_upsert_row: "by_id (upsert_row r table) = (by_id table)(m_id r \<mapsto> r)"
  by (induction table) (auto simp: by_id_def)

lemma distinct_upsert_row:
  "distinct (map m_id table) \<Longrightarrow> distinct (map m_id (upsert_row r table))"
  by (simp add: ids_upsert_row)

lemma distinct_upsert:
  "distinct (map m_id table) \<Longrightarrow> distinct (map m_id (upsert rs table))"
  unfolding upsert_def by (induction rs arbitrary: table) (simp_all add: distinct_upsert_row)

lemma set_ids_upsert_row: "m_id ` set (upsert_row r table) = insert (m_id r) (m_id ` set table)"
  by (induction table) auto

lemma set_ids_upsert: "m_id ` set (upsert rs table) = m_id ` set rs \<union> m_id ` set table"
  unfolding upsert_def by (induction rs arbitrary: table) (auto simp: set_ids_upsert_row)

lemma ids_upsert_present:
  "m_id ` set rs \<subseteq> m_id ` set table \<Longrightarrow> map m_id (upsert rs table) = map m_id table"
  unfolding upsert_def
proof (induction rs arbitrary: table)
  case Nil
  then show ?case by simp
next
  case (Cons r rs)
  then have "map m_id (upsert_row r table) = map m_id table"
    by (simp add: ids_upsert_row)
  moreover from Cons.prems have "m_id ` set rs \<subseteq> m_id ` set (upsert_row r table)"
    by (auto simp: set_ids_upsert_row)
  ultimately show ?case using Cons.IH [of "upsert_row r table"] by simp
qed

lemma by_id_upsert: "by_id (upsert rs table) = by_id table ++ by_id (rev rs)"
  unfolding upsert_def
proof (induction rs arbitrary: table)
  case Nil
  then show ?case by (simp add: by_id_def)
next
  case (Cons r rs)
  have "by_id (rev (r # rs)) = by_id [r] ++ by_id (rev rs)"
    by (simp add: by_id_def)
  moreover have "by_id (upsert_row r table) = by_id table ++ by_id [r]"
    by (simp add: by_id_upsert_row) (simp add: by_id_def)
  ultimately show ?case using Cons.IH [of "upsert_row r table"] by simp
qed

lemma table_eqI:
  assumes "distinct (map m_id s)" and "map m_id s = map m_id t" and "by_id s = by_id t"
  shows "s = t"
proof -
  have rec: "map (\<lambda>i. the (by_id u i)) (map m_id u) = u" if "distinct (map m_id u)" for u
  proof -
    have "by_id u (m_id m) = Some m" if "m \<in> set u" for m
      unfolding by_id_def using \<open>distinct (map m_id u)\<close> that
      by (intro map_of_is_SomeI) (auto simp: o_def)
    then show ?thesis by (simp add: map_idI)
  qed
  from assms have "distinct (map m_id t)" by simp
  from rec [OF assms(1)] rec [OF this] assms(2,3) show ?thesis by simp
qed

lemma upsert_idempotent:
  assumes "distinct (map m_id table)"
  shows "upsert rs (upsert rs table) = upsert rs table"
proof (rule table_eqI)
  show "distinct (map m_id (upsert rs (upsert rs table)))"
    by (intro distinct_upsert assms)
  show "map m_id (upsert rs (upsert rs table)) = map m_id (upsert rs table)"
    by (rule ids_upsert_present) (simp add: set_ids_upsert)
  show "by_id (upsert rs (upsert rs table)) = by_id (upsert rs table)"
    unfolding by_id_upsert
    by (simp add: map_add_def fun_eq_iff split: option.splits)
qed

lemma upsert_append: "upsert (rs @ rs') table = upsert rs' (upsert rs table)"
  by (simp add: upsert_def)

lemma batch_loop_upserts:
  "\<exists>e rs. \<forall>t. batch_loop create frame start t = (e, upsert rs t)"
proof (induction "length frame - start" arbitrary: start rule: less_induct)
  case less
  show ?case
  proof (cases "start < length frame")
    case False
    then have "\<forall>t. batch_loop create frame start t = (None, upsert [] t)"
      by (simp add: upsert_def batch_loop.simps)
    then show ?thesis by blast
  next
    case True
    define batch where
      "batch = take (min (start + BATCH_SIZE) (length frame) - start) (drop start frame)"
    from True have "length frame - (start + BATCH_SIZE) < length frame - start"
      by (simp add: BATCH_SIZE_def)
    from less [OF this] obtain e' rs' where
      next_batches: "\<forall>t. batch_loop create frame (start + BATCH_SIZE) t = (e', upsert rs' t)"
      by blast
    show ?thesis
    proof (cases "get_embeddings create (map snd batch)")
      case (Inl e)
      with True have "\<forall>t. batch_loop create frame start t = (Some e, upsert [] t)"
        by (simp add: upsert_def batch_def Let_def batch_loop.simps [of create frame start])
      then show ?thesis by blast
    next
      case embedded: (Inr embeddings)
      show ?thesis
      proof (cases "records (map fst batch) embeddings")
        case (Inl e)
        with True embedded have "\<forall>t. batch_loop create frame start t = (Some e, upsert [] t)"
          by (simp add: upsert_def batch_def Let_def batch_loop.simps [of create frame start])
        then show ?thesis by blast
      next
        case (Inr rs)
        with True embedded next_batches
        have "\<forall>t. batch_loop create frame start t = (e', upsert (rs @ rs') t)"
          by (simp add: batch_def Let_def upsert_append batch_loop.simps [of create frame start])
        then show ?thesis by blast
      qed
    qed
  qed
qed

lemma main_upserts: "\<exists>e rs. \<forall>t. main create movies_df t = (e, upsert rs t)"
proof (cases "traverse embedding_text (valid_movies movies_df)")
  case (Inl e)
  then have "\<forall>t. main create movies_df t = (Some e, upsert [] t)"
    by (simp add: main_def upsert_def)
  then show ?thesis by blast
next
  case (Inr texts)
  with batch_loop_upserts [of create "zip (valid_movies movies_df) texts" 0]
  show ?thesis by (simp add: main_def)
qed

text \<open>
  C9: a run of the script on a table whose ids are distinct (they are the primary key)
  leaves a table on which a second run over the same data frame, with the same answers of
  the embedding provider, changes nothing: the second run ends as the first did, with the
  same table, row for row. The ids of the table stay distinct, so no movie has two rows.
  This holds also for a run that an exception ends early.
\<close>

theorem main_idempotent:
  assumes "distinct (map m_id table)"
  shows "main create movies_df (snd (main create movies_df table)) = main create movies_df table
    \<and> distinct (map m_id (snd (main create movies_df table)))"
proof -
  obtain e rs where "\<forall>t. main create movies_df t = (e, upsert rs t)"
    using main_upserts by blast
  with assms show ?thesis
    by (simp add: upsert_idempotent distinct_upsert)
qed
theorem main_idempotent_witness:
  "distinct (map m_id example_table)
   \<and> main example_create example_frame example_table
     = (None, [example_movie 7 ''Other'' None, example_record 1 ''Heat'' ''A heist goes wrong'',
               example_record 3 ''Ran'' ''A warlord retires''])
   \<and> main example_create example_frame
       [example_movie 7 ''Other'' None, example_record 1 ''Heat'' ''A heist goes wrong'',
        example_record 3 ''Ran'' ''A warlord retires'']
     = (None, [example_movie 7 ''Other'' None, example_record 1 ''Heat'' ''A heist goes wrong'',
               example_record 3 ''Ran'' ''A warlord retires''])"
proof -
  have d: "distinct (map m_id example_table)"
    by (simp add: example_table_def example_movie_def)
  have r: "main example_create example_frame example_table
     = (None, [example_movie 7 ''Other'' None, example_record 1 ''Heat'' ''A heist goes wrong'',
               example_record 3 ''Ran'' ''A warlord retires''])"
    by (simp add: main_def valid_movies_def drop_duplicates_def valid_movie_def
        example_frame_def example_row_def embedding_text_def batch_loop.simps BATCH_SIZE_def
        get_embeddings_def example_create_def record_of_def upsert_def example_table_def
        example_movie_def example_record_def)
  from main_idempotent [OF d, of example_create example_frame] d r
  show ?thesis by simp
qed

section \<open>The embedding model\<close>

text \<open>
  The script and the endpoint name the same model, so the provider answers a text with the
  same vector on both sides.
\<close>

lemma embedding_model_shared:
  "EMBEDDING_MODEL_script = EMBEDDING_MODEL_backend
   \<and> get_embeddings create texts = create EMBEDDING_MODEL_backend texts"
  by (simp add: EMBEDDING_MODEL_script_def EMBEDDING_MODEL_backend_def get_embeddings_def)

end
